theory Spec2Isabelle
  imports Main
begin

section \<open>Values, exceptions and Python primitives\<close>

text \<open>
  A database cell, and hence a gauge value or a label value, is a scalar: text, a number
  or NULL. Strings are lists of 8-bit characters, read as the code points 0..255.
\<close>

datatype val = Str string | Num int | Null

text \<open>The exceptions that the modelled code can meet.\<close>

datatype exn =
  IndexError | ValueError | KeyboardInterrupt | DatabaseError string | OtherException string

text \<open>
  \<^verbatim>\<open>row[i]\<close> on a list or tuple: an index below zero counts from the end, an index
  outside \<^verbatim>\<open>-len(row) .. len(row)-1\<close> raises IndexError.
\<close>

definition py_getitem :: "'a list \<Rightarrow> int \<Rightarrow> exn + 'a" where
  "py_getitem row i =
     (if 0 \<le> i \<and> i < int (length row) then Inr (row ! nat i)
      else if i < 0 \<and> - int (length row) \<le> i then Inr (row ! nat (int (length row) + i))
      else Inl IndexError)"

text \<open>\<^verbatim>\<open>\d\<close> on code points below 256 is exactly the ten ASCII digits.\<close>

definition is_digit :: "char \<Rightarrow> bool" where
  "is_digit c = (48 \<le> (of_char c :: nat) \<and> (of_char c :: nat) \<le> 57)"

text \<open>The number that a string of decimal digits writes.\<close>

definition int_of_digits :: "string \<Rightarrow> int" where
  "int_of_digits ds = foldl (\<lambda>acc c. 10 * acc + (int (of_char c) - 48)) 0 ds"

text \<open>
  \<^verbatim>\<open>int(s)\<close> on a string of decimal digits. CPython refuses a string of more digits than
  \<^verbatim>\<open>sys.get_int_max_str_digits()\<close>, 4300 unless the interpreter is configured otherwise,
  with ValueError; leading zeros count.
\<close>

definition int_max_str_digits :: nat where
  "int_max_str_digits = 4300"

definition py_int :: "string \<Rightarrow> exn + int" where
  "py_int ds = (if length ds > int_max_str_digits then Inl ValueError else Inr (int_of_digits ds))"

text \<open>
  \<^verbatim>\<open>re.match('^\$(\d+)$', v)\<close>: the result is \<open>None\<close> when there is no match and
  otherwise \<open>Some\<close> of group 1. The pattern is a dollar sign, one or more digits, and the
  end of the string; Python's \<^verbatim>\<open>$\<close> also matches just before a newline that ends
  the string.
\<close>

definition placeholder_match :: "string \<Rightarrow> string option" where
  "placeholder_match v =
     (case v of
        [] \<Rightarrow> None
      | c # cs \<Rightarrow>
          if c \<noteq> CHR ''$'' then None
          else if takeWhile is_digit cs \<noteq> []
                  \<and> (dropWhile is_digit cs = [] \<or> dropWhile is_digit cs = [CHR 0x0A])
               then Some (takeWhile is_digit cs)
               else None)"

section \<open>Configuration and observations\<close>

text \<open>
  One entry of a query's \<^verbatim>\<open>gauges\<close> list: the keys \<^verbatim>\<open>name\<close>, \<^verbatim>\<open>col\<close> and
  \<^verbatim>\<open>extra_labels\<close> of the dictionary \<^verbatim>\<open>g\<close>; an optional key is \<open>None\<close> when absent.
  \<^verbatim>\<open>col\<close> is an integer of the configuration, and the label templates are strings.
  A dictionary of the configuration is the list of its items in order; its keys are
  distinct, and a lookup reads the first item with the key.
\<close>

record gauge =
  gauge_name :: string
  gauge_col :: "int option"
  gauge_extra_labels :: "(string \<times> string) list option"

text \<open>The keys of \<^verbatim>\<open>config_connection\<close> that \<^verbatim>\<open>query_set\<close> reads.\<close>

record connection =
  db_host :: val
  db_port :: val
  db_name :: val
  conn_extra_labels :: "(string \<times> val) list option"

text \<open>
  Modelled from the spec: the sink's \<^verbatim>\<open>set_gauge(name, value, labels)\<close> belongs to the
  exporter module, which is not among the sources. It takes one Observation, that is a
  metric name, a raw value and a label set, and hands control back. An observation is the
  call with its three arguments, and the calls of a pass, in order, are what the pass emits.
\<close>

record observation =
  metric :: string
  "value" :: val
  labels :: "string \<rightharpoonup> val"

section \<open>The mapping of rows to observations (\<^verbatim>\<open>query_set\<close>, one pass)\<close>

text \<open>
  Lines 65 to 74: the connection labels. \<^verbatim>\<open>INVALID_LABEL_STR\<close> is a constant of the
  exporter module and is a parameter of every definition that uses it.
\<close>

definition max_conn_labels :: "string list" where
  "max_conn_labels = [''dbhost'', ''dbenv'', ''dbname'', ''dbinstance'', ''dbport'']"

definition c_labels :: "string \<Rightarrow> connection \<Rightarrow> (string \<rightharpoonup> val)" where
  "c_labels INVALID_LABEL_STR config_connection =
     map_of (map (\<lambda>i. (i, Str INVALID_LABEL_STR)) max_conn_labels)
     ++ ([''dbhost'' \<mapsto> db_host config_connection,
          ''dbport'' \<mapsto> db_port config_connection,
          ''dbname'' \<mapsto> db_name config_connection]
         ++ (case conn_extra_labels config_connection of
               Some extra \<Rightarrow> map_of extra
             | None \<Rightarrow> Map.empty))"

text \<open>Lines 79 to 82.\<close>

definition g_labels :: "gauge \<Rightarrow> (string \<times> string) list" where
  "g_labels g = (case gauge_extra_labels g of Some l \<Rightarrow> l | None \<Rightarrow> [])"

text \<open>Line 89.\<close>

definition has_special_labels :: "(string \<times> string) list \<Rightarrow> bool" where
  "has_special_labels gl = list_ex (\<lambda>v. placeholder_match v \<noteq> None) (map snd gl)"

text \<open>Line 101: the zero-based column of a label template, computed before the row is read.\<close>

definition g_label_index :: "string \<Rightarrow> exn + int" where
  "g_label_index v =
     (case placeholder_match v of
        Some ds \<Rightarrow> (case py_int ds of Inl e \<Rightarrow> Inl e | Inr n \<Rightarrow> Inr (n - 1))
      | None \<Rightarrow> Inr 0)"

text \<open>Lines 101 and 102: the value that replaces one label template for one row.\<close>

definition resolve_label :: "string \<Rightarrow> string \<Rightarrow> val list \<Rightarrow> exn + val" where
  "resolve_label INVALID_LABEL_STR v row =
     (case g_label_index v of
        Inl e \<Rightarrow> Inl e
      | Inr i \<Rightarrow>
          if row \<noteq> [] \<and> int (length row) \<ge> i
          then py_getitem row i
          else Inr (Str INVALID_LABEL_STR))"

text \<open>Lines 99 to 102: the loop over the items of the copied label dictionary.\<close>

fun resolve_labels :: "string \<Rightarrow> (string \<times> string) list \<Rightarrow> val list \<Rightarrow> exn + (string \<times> val) list" where
  "resolve_labels INVALID_LABEL_STR [] row = Inr []"
| "resolve_labels INVALID_LABEL_STR ((k, v) # kvs) row =
     (case resolve_label INVALID_LABEL_STR v row of
        Inl e \<Rightarrow> Inl e
      | Inr x \<Rightarrow>
          (case resolve_labels INVALID_LABEL_STR kvs row of
             Inl e \<Rightarrow> Inl e
           | Inr rest \<Rightarrow> Inr ((k, x) # rest)))"

text \<open>Lines 95, 96 and 104, 105: the guarded call of \<^verbatim>\<open>set_gauge\<close>.\<close>

definition set_gauge_if_present ::
    "string \<Rightarrow> int \<Rightarrow> val list \<Rightarrow> (string \<rightharpoonup> val) \<Rightarrow> exn + observation list" where
  "set_gauge_if_present nm col row lbls =
     (if row \<noteq> [] \<and> int (length row) \<ge> col
      then (case py_getitem row col of
              Inl e \<Rightarrow> Inl e
            | Inr x \<Rightarrow> Inr [\<lparr>metric = nm, value = x, labels = lbls\<rparr>])
      else Inr [])"

text \<open>
  A pass yields the observations emitted so far and, when an exception stopped it, that
  exception. Lines 98 to 105: the loop over the rows in the branch with placeholders.
\<close>

fun dynamic_rows ::
    "string \<Rightarrow> (string \<times> string) list \<Rightarrow> (string \<rightharpoonup> val) \<Rightarrow> string \<Rightarrow> int \<Rightarrow> val list list
      \<Rightarrow> observation list \<times> exn option" where
  "dynamic_rows INVALID_LABEL_STR gl cl nm col [] = ([], None)"
| "dynamic_rows INVALID_LABEL_STR gl cl nm col (row # rows) =
     (case resolve_labels INVALID_LABEL_STR gl row of
        Inl e \<Rightarrow> ([], Some e)
      | Inr g_labels_aux \<Rightarrow>
          (case set_gauge_if_present nm col row (map_of g_labels_aux ++ cl) of
             Inl e \<Rightarrow> ([], Some e)
           | Inr obs \<Rightarrow>
               (case dynamic_rows INVALID_LABEL_STR gl cl nm col rows of
                  (later, err) \<Rightarrow> (obs @ later, err))))"

text \<open>Lines 89 to 105: one gauge against the result set, with its column already chosen.\<close>

definition gauge_body ::
    "string \<Rightarrow> (string \<rightharpoonup> val) \<Rightarrow> val list list \<Rightarrow> gauge \<Rightarrow> int \<Rightarrow> observation list \<times> exn option" where
  "gauge_body INVALID_LABEL_STR cl res g col =
     (if \<not> has_special_labels (g_labels g) then
        (case res of
           [] \<Rightarrow> ([], None)
         | row # _ \<Rightarrow>
             (case set_gauge_if_present (gauge_name g) col row
                     (map_of (map (\<lambda>(k, v). (k, Str v)) (g_labels g)) ++ cl) of
                Inl e \<Rightarrow> ([], Some e)
              | Inr obs \<Rightarrow> (obs, None)))
      else dynamic_rows INVALID_LABEL_STR (g_labels g) cl (gauge_name g) col res)"

text \<open>Lines 77 to 106: the loop over the gauges, with the running counter.\<close>

fun gauges_loop ::
    "string \<Rightarrow> (string \<rightharpoonup> val) \<Rightarrow> val list list \<Rightarrow> gauge list \<Rightarrow> int \<Rightarrow> observation list \<times> exn option" where
  "gauges_loop INVALID_LABEL_STR cl res [] g_counter = ([], None)"
| "gauges_loop INVALID_LABEL_STR cl res (g # gs) g_counter =
     (case gauge_body INVALID_LABEL_STR cl res g
             (case gauge_col g of Some c \<Rightarrow> c - 1 | None \<Rightarrow> g_counter) of
        (obs, Some e) \<Rightarrow> (obs, Some e)
      | (obs, None) \<Rightarrow>
          (case gauges_loop INVALID_LABEL_STR cl res gs (g_counter + 1) of
             (later, err) \<Rightarrow> (obs @ later, err)))"

text \<open>Lines 65 to 106 for a given result \<^verbatim>\<open>res\<close> of \<^verbatim>\<open>execute\<close>.\<close>

definition query_set_pass ::
    "string \<Rightarrow> connection \<Rightarrow> val list list \<Rightarrow> gauge list \<Rightarrow> observation list \<times> exn option" where
  "query_set_pass INVALID_LABEL_STR config_connection res gauges =
     gauges_loop INVALID_LABEL_STR (c_labels INVALID_LABEL_STR config_connection) res gauges 0"

section \<open>Registration of the label schema (\<^verbatim>\<open>get_labels_list\<close>, \<^verbatim>\<open>start_prometheus_exporter\<close>)\<close>

text \<open>Lines 131 to 142: the label keys of all connections, as a set.\<close>

definition get_labels_list :: "connection list \<Rightarrow> string set" where
  "get_labels_list config_connections =
     insert ''dbname'' (insert ''dbport'' (insert ''dbhost''
       (foldl (\<lambda>acc c. acc \<union> set (map fst (case conn_extra_labels c of Some e \<Rightarrow> e | None \<Rightarrow> [])))
          {} config_connections)))"

text \<open>Lines 152 and 153: the label keys that \<^verbatim>\<open>create_gauge\<close> receives for one gauge.\<close>

definition create_gauge_labels :: "string set \<Rightarrow> gauge \<Rightarrow> string set" where
  "create_gauge_labels conn_label_keys g = conn_label_keys \<union> set (map fst (g_labels g))"

section \<open>Query execution (\<^verbatim>\<open>OracleConnection.execute\<close>)\<close>

text \<open>
  \<^verbatim>\<open>str.strip()\<close>, \<^verbatim>\<open>str.lower()\<close> and \<^verbatim>\<open>str.startswith\<close> on code points below 256:
  the white space characters are 9 to 13, 28 to 32, 133 and 160; the upper-case letters
  are 65 to 90 and 192 to 222 without 215, each 32 below its lower-case letter.
\<close>

definition py_isspace :: "char \<Rightarrow> bool" where
  "py_isspace c = ((of_char c :: nat) \<in> {9, 10, 11, 12, 13, 28, 29, 30, 31, 32, 133, 160})"

definition strip :: "string \<Rightarrow> string" where
  "strip s = rev (dropWhile py_isspace (rev (dropWhile py_isspace s)))"

definition lower_char :: "char \<Rightarrow> char" where
  "lower_char c =
     (if (65 \<le> (of_char c :: nat) \<and> (of_char c :: nat) \<le> 90)
         \<or> (192 \<le> (of_char c :: nat) \<and> (of_char c :: nat) \<le> 222 \<and> (of_char c :: nat) \<noteq> 215)
      then char_of ((of_char c :: nat) + 32)
      else c)"

definition lower :: "string \<Rightarrow> string" where
  "lower s = map lower_char s"

definition startswith :: "string \<Rightarrow> string \<Rightarrow> bool" where
  "startswith s p = (take (length p) s = p)"

text \<open>
  The live connection (\<^verbatim>\<open>self.conn\<close>) is what the driver does with a statement: the
  calls \<^verbatim>\<open>cursor()\<close>, \<^verbatim>\<open>execute(query)\<close>, \<^verbatim>\<open>fetchall()\<close> and \<^verbatim>\<open>close()\<close> together
  either raise or hand back the rows. \<open>None\<close> is the absent connection.
\<close>

type_synonym database = "string \<Rightarrow> exn + val list list"

text \<open>
  Lines 49 to 84. The result is what \<^verbatim>\<open>execute\<close> returns or raises, and the statements
  that reached the database. Log lines are not modelled. A \<^verbatim>\<open>DatabaseError\<close> of the
  driver carries one error object with a message, so the handler's unpacking succeeds.
\<close>

definition execute :: "database option \<Rightarrow> string \<Rightarrow> string \<Rightarrow> (exn + val list list) \<times> string list" where
  "execute conn query name =
     (case conn of
        None \<Rightarrow> (Inr [], [])
      | Some db \<Rightarrow>
          if \<not> startswith (lower (strip query)) ''select'' then (Inr [], [])
          else (case db query of
                  Inr rows \<Rightarrow> (Inr rows, [query])
                | Inl KeyboardInterrupt \<Rightarrow> (Inl KeyboardInterrupt, [query])
                | Inl (DatabaseError m) \<Rightarrow> (Inr [[]], [query])
                | Inl _ \<Rightarrow> (Inr [[]], [query])))"

section \<open>Notions used to state the properties\<close>

text \<open>
  Steps run one after the other: the observations add up, and the first exception ends
  the sequence.
\<close>

fun in_declared_order :: "('a list \<times> exn option) list \<Rightarrow> 'a list \<times> exn option" where
  "in_declared_order [] = ([], None)"
| "in_declared_order ((obs, Some e) # steps) = (obs, Some e)"
| "in_declared_order ((obs, None) # steps) =
     (case in_declared_order steps of (later, err) \<Rightarrow> (obs @ later, err))"

text \<open>
  A label template whose conversion on line 101 succeeds: it is no placeholder, or its
  digits are within the limit of \<^verbatim>\<open>int\<close>.
\<close>

definition within_int_limit :: "string \<Rightarrow> bool" where
  "within_int_limit v =
     (case placeholder_match v of Some ds \<Rightarrow> length ds \<le> int_max_str_digits | None \<Rightarrow> True)"

definition labels_within_int_limit :: "gauge \<Rightarrow> bool" where
  "labels_within_int_limit g = list_all (\<lambda>(k, v). within_int_limit v) (g_labels g)"

text \<open>
  The scenario of the specification: rows \<^verbatim>\<open>[["A",10],["B",20]]\<close>, a connection on host
  \<^verbatim>\<open>h1\<close>, gauges with \<^verbatim>\<open>col=2\<close>.
\<close>

definition scenario_connection :: connection where
  "scenario_connection =
     \<lparr>db_host = Str ''h1'', db_port = Num 1521, db_name = Str ''orcl'', conn_extra_labels = None\<rparr>"

definition scenario_rows :: "val list list" where
  "scenario_rows = [[Str ''A'', Num 10], [Str ''B'', Num 20]]"

definition colliding_static_gauge :: gauge where
  "colliding_static_gauge =
     \<lparr>gauge_name = ''m_static'', gauge_col = Some 2,
      gauge_extra_labels = Some [(''dbname'', ''from_gauge'')]\<rparr>"

definition colliding_dynamic_gauge :: gauge where
  "colliding_dynamic_gauge =
     \<lparr>gauge_name = ''m_dynamic'', gauge_col = Some 2,
      gauge_extra_labels = Some [(''dbname'', ''from_gauge''), (''env'', ''$1'')]\<rparr>"

definition plain_gauge :: gauge where
  "plain_gauge = \<lparr>gauge_name = ''m_plain'', gauge_col = Some 2, gauge_extra_labels = None\<rparr>"

definition mixed_gauge :: gauge where
  "mixed_gauge =
     \<lparr>gauge_name = ''m_mixed'', gauge_col = Some 2,
      gauge_extra_labels = Some [(''env'', ''$1''), (''kind'', ''literal'')]\<rparr>"

definition positional_gauge :: gauge where
  "positional_gauge = \<lparr>gauge_name = ''m_positional'', gauge_col = None, gauge_extra_labels = None\<rparr>"

text \<open>A connection on which every statement fails with a database error.\<close>

definition failing_database :: database where
  "failing_database = (\<lambda>q. Inl (DatabaseError ''ORA-00942''))"

definition scenario_dynamic_gauge :: gauge where
  "scenario_dynamic_gauge =
     \<lparr>gauge_name = ''m_env'', gauge_col = Some 2, gauge_extra_labels = Some [(''env'', ''$1'')]\<rparr>"

definition second_column_label_gauge :: gauge where
  "second_column_label_gauge =
     \<lparr>gauge_name = ''m_second'', gauge_col = Some 1, gauge_extra_labels = Some [(''env'', ''$2'')]\<rparr>"

definition regional_connection :: connection where
  "regional_connection =
     \<lparr>db_host = Str ''h2'', db_port = Num 1521, db_name = Str ''orcl2'',
      conn_extra_labels = Some [(''region'', Str ''eu'')]\<rparr>"

lemmas mapping_defs =
  gauge_body_def g_labels_def has_special_labels_def placeholder_match_def is_digit_def
  int_of_digits_def int_max_str_digits_def py_int_def g_label_index_def resolve_label_def
  py_getitem_def set_gauge_if_present_def c_labels_def
  max_conn_labels_def query_set_pass_def

section \<open>Connection labels overlay every emitted label set\<close>

lemma set_gauge_if_present_cases:
  "set_gauge_if_present nm col row lbls = Inr obs \<Longrightarrow>
     obs = [] \<or> (\<exists>x. obs = [\<lparr>metric = nm, value = x, labels = lbls\<rparr>])"
  by (auto simp: set_gauge_if_present_def split: if_splits sum.splits)

lemma set_gauge_if_present_over:
  assumes "set_gauge_if_present nm col row (m ++ cl) = Inr obs" and "ob \<in> set obs"
    and "cl k = Some x"
  shows "labels ob k = Some x"
  using set_gauge_if_present_cases [OF assms(1)] assms(2,3) by auto

lemma dynamic_rows_over:
  "dynamic_rows sentinel gl cl nm col rows = (obs, err) \<Longrightarrow> ob \<in> set obs
    \<Longrightarrow> cl k = Some x \<Longrightarrow> labels ob k = Some x"
proof (induction rows arbitrary: obs err)
  case Nil
  then show ?case by simp
next
  case (Cons row rows)
  show ?case
  proof (cases "resolve_labels sentinel gl row")
    case (Inl e)
    with Cons.prems show ?thesis by simp
  next
    case (Inr aux)
    show ?thesis
    proof (cases "set_gauge_if_present nm col row (map_of aux ++ cl)")
      case (Inl e)
      with Inr Cons.prems show ?thesis by simp
    next
      case emitted: (Inr here)
      obtain later err' where rest: "dynamic_rows sentinel gl cl nm col rows = (later, err')"
        by (cases "dynamic_rows sentinel gl cl nm col rows")
      with Inr emitted Cons.prems have "ob \<in> set here \<or> ob \<in> set later"
        by auto
      then show ?thesis
        using set_gauge_if_present_over [OF emitted _ Cons.prems(3)]
          Cons.IH [OF rest _ Cons.prems(3)] by blast
    qed
  qed
qed

lemma gauge_body_over:
  assumes "gauge_body sentinel cl res g col = (obs, err)" and "ob \<in> set obs"
    and "cl k = Some x"
  shows "labels ob k = Some x"
proof (cases "has_special_labels (g_labels g)")
  case True
  with assms show ?thesis
    by (auto simp: gauge_body_def dest: dynamic_rows_over)
next
  case False
  with assms show ?thesis
    by (auto simp: gauge_body_def split: list.splits sum.splits
        dest: set_gauge_if_present_over)
qed

lemma gauges_loop_over:
  "gauges_loop sentinel cl res gs n = (obs, err) \<Longrightarrow> ob \<in> set obs
    \<Longrightarrow> cl k = Some x \<Longrightarrow> labels ob k = Some x"
proof (induction gs arbitrary: n obs err)
  case Nil
  then show ?case by simp
next
  case (Cons g gs)
  let ?col = "case gauge_col g of Some c \<Rightarrow> c - 1 | None \<Rightarrow> n"
  obtain here e1 where first: "gauge_body sentinel cl res g ?col = (here, e1)"
    by (cases "gauge_body sentinel cl res g ?col")
  obtain later e2 where rest: "gauges_loop sentinel cl res gs (n + 1) = (later, e2)"
    by (cases "gauges_loop sentinel cl res gs (n + 1)")
  from first rest Cons.prems(1,2) have "ob \<in> set here \<or> ob \<in> set later"
    by (auto split: option.splits)
  then show ?case
    using gauge_body_over [OF first _ Cons.prems(3)] Cons.IH [OF rest _ Cons.prems(3)]
    by blast
qed

lemma dom_c_labels:
  "dom (c_labels sentinel cfg) =
     set max_conn_labels \<union> (case conn_extra_labels cfg of Some extra \<Rightarrow> fst ` set extra | None \<Rightarrow> {})"
  by (auto simp: c_labels_def max_conn_labels_def dom_map_of_conv_image_fst split: option.splits if_splits)

text \<open>
  C1 (as amended). For every gauge binding and every label key present both in the
  gauge's \<^verbatim>\<open>extra_labels\<close> and in the connection-level label set, the value emitted in an
  observation's label set is the connection-level value: \<^verbatim>\<open>g_labels | c_labels\<close> lets the
  right operand win. This holds in the static-label and in the dynamic-label branch.
\<close>

theorem connection_labels_win:
  assumes "ob \<in> set (fst (gauge_body sentinel (c_labels sentinel cfg) res g col))"
    and "k \<in> fst ` set (g_labels g)"
    and "k \<in> dom (c_labels sentinel cfg)"
  shows "labels ob k = c_labels sentinel cfg k"
proof -
  from assms(3) obtain x where "c_labels sentinel cfg k = Some x"
    by blast
  with assms(1) show ?thesis
    using gauge_body_over [of sentinel "c_labels sentinel cfg" res g col _ _ ob k x]
    by (cases "gauge_body sentinel (c_labels sentinel cfg) res g col") simp
qed


theorem gauge_label_collision_counterexample:
  "map (\<lambda>ob. labels ob ''dbname'')
     (fst (query_set_pass ''invalid'' scenario_connection scenario_rows
             [colliding_static_gauge, colliding_dynamic_gauge]))
   = [Some (Str ''orcl''), Some (Str ''orcl''), Some (Str ''orcl'')]"
  by (simp add: scenario_connection_def scenario_rows_def colliding_static_gauge_def
      colliding_dynamic_gauge_def mapping_defs)

theorem connection_labels_win_witness:
  "hd (fst (gauge_body ''invalid'' (c_labels ''invalid'' scenario_connection) scenario_rows
              colliding_dynamic_gauge 1))
     \<in> set (fst (gauge_body ''invalid'' (c_labels ''invalid'' scenario_connection) scenario_rows
              colliding_dynamic_gauge 1))
   \<and> ''dbname'' \<in> fst ` set (g_labels colliding_dynamic_gauge)
   \<and> ''dbname'' \<in> dom (c_labels ''invalid'' scenario_connection)
   \<and> labels (hd (fst (gauge_body ''invalid'' (c_labels ''invalid'' scenario_connection)
                        scenario_rows colliding_dynamic_gauge 1))) ''dbname''
       = Some (Str ''orcl'')"
proof -
  let ?obs = "fst (gauge_body ''invalid'' (c_labels ''invalid'' scenario_connection)
                     scenario_rows colliding_dynamic_gauge 1)"
  have "?obs \<noteq> []"
    by (simp add: scenario_connection_def scenario_rows_def colliding_static_gauge_def
      colliding_dynamic_gauge_def mapping_defs)
  then have h1: "hd ?obs \<in> set ?obs"
    by simp
  have h2: "''dbname'' \<in> fst ` set (g_labels colliding_dynamic_gauge)"
    by (simp add: colliding_dynamic_gauge_def g_labels_def)
  have h3: "''dbname'' \<in> dom (c_labels ''invalid'' scenario_connection)"
    by (simp add: dom_c_labels max_conn_labels_def)
  have "c_labels ''invalid'' scenario_connection ''dbname'' = Some (Str ''orcl'')"
    by (simp add: c_labels_def scenario_connection_def max_conn_labels_def)
  with connection_labels_win [OF h1 h2 h3] h1 h2 h3 show ?thesis
    by simp
qed

lemma c_labels_value:
  "c_labels sentinel cfg k =
     (case (case conn_extra_labels cfg of None \<Rightarrow> None | Some extra \<Rightarrow> map_of extra k) of
        Some x \<Rightarrow> Some x
      | None \<Rightarrow>
          if k = ''dbhost'' then Some (db_host cfg)
          else if k = ''dbport'' then Some (db_port cfg)
          else if k = ''dbname'' then Some (db_name cfg)
          else if k = ''dbenv'' \<or> k = ''dbinstance'' then Some (Str sentinel)
          else None)"
proof (cases "conn_extra_labels cfg")
  case None
  then show ?thesis
    by (simp add: c_labels_def max_conn_labels_def map_add_def)
next
  case (Some extra)
  show ?thesis
  proof (cases "map_of extra k")
    case None
    with Some show ?thesis
      by (simp add: c_labels_def max_conn_labels_def map_add_def)
  next
    case (Some x)
    with \<open>conn_extra_labels cfg = Some extra\<close> show ?thesis
      by (simp add: c_labels_def max_conn_labels_def map_add_def)
  qed
qed

text \<open>
  C10. Every emitted observation's label set contains the five connection-level keys
  \<^verbatim>\<open>dbhost\<close>, \<^verbatim>\<open>dbport\<close>, \<^verbatim>\<open>dbname\<close>, \<^verbatim>\<open>dbenv\<close> and \<^verbatim>\<open>dbinstance\<close>, and it agrees with
  the connection labels on every key of theirs. The sentinel base on the five keys is
  overlaid with the connection's values: \<^verbatim>\<open>dbhost\<close>, \<^verbatim>\<open>dbport\<close> and \<^verbatim>\<open>dbname\<close> carry the
  connection's host, port and name unless its \<^verbatim>\<open>extra_labels\<close> names the key, every key
  of \<^verbatim>\<open>extra_labels\<close> carries the value given there, and \<^verbatim>\<open>dbenv\<close> and \<^verbatim>\<open>dbinstance\<close>
  carry the sentinel string unless \<^verbatim>\<open>extra_labels\<close> supplies them.
\<close>

theorem five_connection_keys:
  assumes "ob \<in> set (fst (query_set_pass sentinel cfg res gauges))"
  shows "{''dbhost'', ''dbport'', ''dbname'', ''dbenv'', ''dbinstance''} \<subseteq> dom (labels ob)
    \<and> c_labels sentinel cfg \<subseteq>\<^sub>m labels ob
    \<and> (\<forall>k \<in> {''dbenv'', ''dbinstance''}.
          labels ob k =
            (case conn_extra_labels cfg of
               None \<Rightarrow> Some (Str sentinel)
             | Some extra \<Rightarrow>
                 (case map_of extra k of None \<Rightarrow> Some (Str sentinel) | Some x \<Rightarrow> Some x)))
    \<and> labels ob ''dbhost'' =
         (case conn_extra_labels cfg of
            None \<Rightarrow> Some (db_host cfg)
          | Some extra \<Rightarrow>
              (case map_of extra ''dbhost'' of None \<Rightarrow> Some (db_host cfg) | Some x \<Rightarrow> Some x))
    \<and> labels ob ''dbport'' =
         (case conn_extra_labels cfg of
            None \<Rightarrow> Some (db_port cfg)
          | Some extra \<Rightarrow>
              (case map_of extra ''dbport'' of None \<Rightarrow> Some (db_port cfg) | Some x \<Rightarrow> Some x))
    \<and> labels ob ''dbname'' =
         (case conn_extra_labels cfg of
            None \<Rightarrow> Some (db_name cfg)
          | Some extra \<Rightarrow>
              (case map_of extra ''dbname'' of None \<Rightarrow> Some (db_name cfg) | Some x \<Rightarrow> Some x))
    \<and> (conn_extra_labels cfg = Some extra \<and> map_of extra key = Some x \<longrightarrow> labels ob key = Some x)"
proof -
  obtain obs err where run: "gauges_loop sentinel (c_labels sentinel cfg) res gauges 0 = (obs, err)"
    by (cases "gauges_loop sentinel (c_labels sentinel cfg) res gauges 0")
  with assms have mem: "ob \<in> set obs"
    by (simp add: query_set_pass_def)
  have over: "labels ob k = Some y" if "c_labels sentinel cfg k = Some y" for k y
    using gauges_loop_over [OF run mem that] .
  have same: "labels ob k = c_labels sentinel cfg k" if "k \<in> dom (c_labels sentinel cfg)" for k
    using that over by (metis domD)
  have five: "k \<in> dom (c_labels sentinel cfg)" if "k \<in> set max_conn_labels" for k
    using that by (simp add: dom_c_labels)
  have "k \<in> dom (labels ob)" if "k \<in> set max_conn_labels" for k
  proof -
    from five [OF that] obtain y where "c_labels sentinel cfg k = Some y"
      by blast
    then have "labels ob k = Some y"
      by (rule over)
    then show ?thesis by blast
  qed
  then have keys: "{''dbhost'', ''dbport'', ''dbname'', ''dbenv'', ''dbinstance''} \<subseteq> dom (labels ob)"
    by (simp add: max_conn_labels_def)
  have le: "c_labels sentinel cfg \<subseteq>\<^sub>m labels ob"
    unfolding map_le_def using same by simp
  have env: "\<forall>k \<in> {''dbenv'', ''dbinstance''}.
          labels ob k =
            (case conn_extra_labels cfg of
               None \<Rightarrow> Some (Str sentinel)
             | Some extra \<Rightarrow>
                 (case map_of extra k of None \<Rightarrow> Some (Str sentinel) | Some x \<Rightarrow> Some x))"
  proof
    fix k :: string
    assume k: "k \<in> {''dbenv'', ''dbinstance''}"
    then have "k \<in> set max_conn_labels"
      by (auto simp: max_conn_labels_def)
    then have "labels ob k = c_labels sentinel cfg k"
      using five same by blast
    with k show "labels ob k =
            (case conn_extra_labels cfg of
               None \<Rightarrow> Some (Str sentinel)
             | Some extra \<Rightarrow>
                 (case map_of extra k of None \<Rightarrow> Some (Str sentinel) | Some x \<Rightarrow> Some x))"
      by (auto simp: c_labels_value split: option.splits)
  qed
  have "labels ob ''dbhost'' = c_labels sentinel cfg ''dbhost''"
    using five same by (simp add: max_conn_labels_def)
  then have host: "labels ob ''dbhost'' =
         (case conn_extra_labels cfg of
            None \<Rightarrow> Some (db_host cfg)
          | Some extra \<Rightarrow>
              (case map_of extra ''dbhost'' of None \<Rightarrow> Some (db_host cfg) | Some x \<Rightarrow> Some x))"
    by (simp add: c_labels_value split: option.splits)
  have "labels ob ''dbport'' = c_labels sentinel cfg ''dbport''"
    using five same by (simp add: max_conn_labels_def)
  then have port: "labels ob ''dbport'' =
         (case conn_extra_labels cfg of
            None \<Rightarrow> Some (db_port cfg)
          | Some extra \<Rightarrow>
              (case map_of extra ''dbport'' of None \<Rightarrow> Some (db_port cfg) | Some x \<Rightarrow> Some x))"
    by (simp add: c_labels_value split: option.splits)
  have "labels ob ''dbname'' = c_labels sentinel cfg ''dbname''"
    using five same by (simp add: max_conn_labels_def)
  then have name: "labels ob ''dbname'' =
         (case conn_extra_labels cfg of
            None \<Rightarrow> Some (db_name cfg)
          | Some extra \<Rightarrow>
              (case map_of extra ''dbname'' of None \<Rightarrow> Some (db_name cfg) | Some x \<Rightarrow> Some x))"
    by (simp add: c_labels_value split: option.splits)
  have extra: "labels ob key = Some x"
    if "conn_extra_labels cfg = Some extra \<and> map_of extra key = Some x"
  proof -
    from that have "c_labels sentinel cfg key = Some x"
      by (simp add: c_labels_value)
    then show ?thesis by (rule over)
  qed
  from keys le env host port name extra show ?thesis
    by blast
qed

theorem five_connection_keys_witness:
  "\<lparr>metric = ''m_static'', value = Num 10,
     labels = map_of [(''dbname'', Str ''from_gauge'')] ++ c_labels ''invalid'' scenario_connection\<rparr>
     \<in> set (fst (query_set_pass ''invalid'' scenario_connection scenario_rows [colliding_static_gauge]))
   \<and> {''dbhost'', ''dbport'', ''dbname'', ''dbenv'', ''dbinstance''}
       \<subseteq> dom (map_of [(''dbname'', Str ''from_gauge'')] ++ c_labels ''invalid'' scenario_connection)
   \<and> (map_of [(''dbname'', Str ''from_gauge'')] ++ c_labels ''invalid'' scenario_connection) ''dbenv''
       = Some (Str ''invalid'')
   \<and> (map_of [(''dbname'', Str ''from_gauge'')] ++ c_labels ''invalid'' scenario_connection) ''dbinstance''
       = Some (Str ''invalid'')
   \<and> (map_of [(''dbname'', Str ''from_gauge'')] ++ c_labels ''invalid'' scenario_connection) ''dbhost''
       = Some (Str ''h1'')
   \<and> (map_of [(''dbname'', Str ''from_gauge'')] ++ c_labels ''invalid'' scenario_connection) ''dbport''
       = Some (Num 1521)
   \<and> (map_of [(''dbname'', Str ''from_gauge'')] ++ c_labels ''invalid'' scenario_connection) ''dbname''
       = Some (Str ''orcl'')
   \<and> \<lparr>metric = ''m_plain'', value = Num 10, labels = c_labels ''invalid'' regional_connection\<rparr>
     \<in> set (fst (query_set_pass ''invalid'' regional_connection scenario_rows [plain_gauge]))
   \<and> conn_extra_labels regional_connection = Some [(''region'', Str ''eu'')]
   \<and> map_of [(''region'', Str ''eu'')] ''region'' = Some (Str ''eu'')
   \<and> c_labels ''invalid'' regional_connection ''region'' = Some (Str ''eu'')
   \<and> c_labels ''invalid'' regional_connection ''dbhost'' = Some (Str ''h2'')"
proof -
  let ?cl = "c_labels ''invalid'' scenario_connection"
  let ?ob = "\<lparr>metric = ''m_static'', value = Num 10,
     labels = map_of [(''dbname'', Str ''from_gauge'')] ++ ?cl\<rparr>"
  let ?ob2 = "\<lparr>metric = ''m_plain'', value = Num 10, labels = c_labels ''invalid'' regional_connection\<rparr>"
  have h: "?ob \<in> set (fst (query_set_pass ''invalid'' scenario_connection scenario_rows
                              [colliding_static_gauge]))"
    by (simp add: query_set_pass_def scenario_rows_def colliding_static_gauge_def gauge_body_def
        g_labels_def has_special_labels_def placeholder_match_def set_gauge_if_present_def
        py_getitem_def)
  have none: "conn_extra_labels scenario_connection = None"
    by (simp add: scenario_connection_def)
  have conn: "db_host scenario_connection = Str ''h1''" "db_port scenario_connection = Num 1521"
    "db_name scenario_connection = Str ''orcl''"
    by (simp_all add: scenario_connection_def)
  have h2: "?ob2 \<in> set (fst (query_set_pass ''invalid'' regional_connection scenario_rows
                              [plain_gauge]))"
    by (simp add: query_set_pass_def scenario_rows_def plain_gauge_def gauge_body_def
        g_labels_def has_special_labels_def set_gauge_if_present_def py_getitem_def)
  have some: "conn_extra_labels regional_connection = Some [(''region'', Str ''eu'')]"
    by (simp add: regional_connection_def)
  have lookup: "map_of [(''region'', Str ''eu'')] ''region'' = Some (Str ''eu'')"
    by simp
  have host2: "db_host regional_connection = Str ''h2''"
    by (simp add: regional_connection_def)
  note first = five_connection_keys [OF h]
  note second = five_connection_keys
    [OF h2, where extra = "[(''region'', Str ''eu'')]" and key = "''region''" and x = "Str ''eu''"]
  from first none conn have a:
    "{''dbhost'', ''dbport'', ''dbname'', ''dbenv'', ''dbinstance''} \<subseteq> dom (labels ?ob)
     \<and> labels ?ob ''dbenv'' = Some (Str ''invalid'')
     \<and> labels ?ob ''dbinstance'' = Some (Str ''invalid'')
     \<and> labels ?ob ''dbhost'' = Some (Str ''h1'')
     \<and> labels ?ob ''dbport'' = Some (Num 1521)
     \<and> labels ?ob ''dbname'' = Some (Str ''orcl'')"
    by simp
  from second some lookup host2 have b:
    "labels ?ob2 ''region'' = Some (Str ''eu'') \<and> labels ?ob2 ''dbhost'' = Some (Str ''h2'')"
    by simp
  from a b h h2 some lookup show ?thesis
    by simp
qed

section \<open>Label templates that are not placeholders\<close>








section \<open>The static-label branch\<close>

text \<open>
  C7 (as amended). In the static-label branch with a non-empty result set only the first
  row is consulted, whatever rows follow it. When that row has more than \<open>col\<close> columns
  (\<open>0 \<le> col < len(row)\<close>), exactly one observation is emitted, with the value
  \<^verbatim>\<open>row[col]\<close> of the first row and the gauge labels overlaid with the connection labels.
  When that row is empty or has fewer than \<open>col\<close> columns, nothing is emitted.
\<close>

theorem static_branch_first_row:
  assumes "\<not> has_special_labels (g_labels g)"
  shows "gauge_body sentinel cl (row # rows) g col = gauge_body sentinel cl [row] g col
    \<and> (0 \<le> col \<and> col < int (length row) \<longrightarrow>
          gauge_body sentinel cl (row # rows) g col
          = ([\<lparr>metric = gauge_name g, value = row ! nat col,
                labels = map_of (map (\<lambda>(k, v). (k, Str v)) (g_labels g)) ++ cl\<rparr>], None))
    \<and> (row = [] \<or> int (length row) < col \<longrightarrow>
          gauge_body sentinel cl (row # rows) g col = ([], None))"
  using assms
  by (auto simp: gauge_body_def set_gauge_if_present_def py_getitem_def)

text \<open>
  A result set that holds one row without columns is not empty, and the static-label
  gauge emits nothing for it.
\<close>

theorem static_branch_counterexample:
  "query_set_pass ''invalid'' scenario_connection [[]] [plain_gauge] = ([], None)"
  by (simp add: plain_gauge_def mapping_defs)

theorem static_branch_first_row_witness:
  "\<not> has_special_labels (g_labels plain_gauge)
   \<and> gauge_body ''invalid'' (c_labels ''invalid'' scenario_connection) scenario_rows plain_gauge 1
     = gauge_body ''invalid'' (c_labels ''invalid'' scenario_connection) [[Str ''A'', Num 10]] plain_gauge 1
   \<and> gauge_body ''invalid'' (c_labels ''invalid'' scenario_connection) scenario_rows plain_gauge 1
     = ([\<lparr>metric = ''m_plain'', value = Num 10,
           labels = c_labels ''invalid'' scenario_connection\<rparr>], None)
   \<and> gauge_body ''invalid'' (c_labels ''invalid'' scenario_connection) ([Str ''A''] # [[Str ''B'', Num 20]])
        plain_gauge 2
     = ([], None)"
proof -
  have h: "\<not> has_special_labels (g_labels plain_gauge)"
    by (simp add: plain_gauge_def g_labels_def has_special_labels_def)
  have g: "g_labels plain_gauge = []" "gauge_name plain_gauge = ''m_plain''"
    by (simp_all add: plain_gauge_def g_labels_def)
  let ?cl = "c_labels ''invalid'' scenario_connection"
  note first = static_branch_first_row
    [OF h, of "''invalid''" ?cl "[Str ''A'', Num 10]" "[[Str ''B'', Num 20]]" 1]
  note short = static_branch_first_row
    [OF h, of "''invalid''" ?cl "[Str ''A'']" "[[Str ''B'', Num 20]]" 2]
  from first [THEN conjunct1] have a:
    "gauge_body ''invalid'' ?cl scenario_rows plain_gauge 1
     = gauge_body ''invalid'' ?cl [[Str ''A'', Num 10]] plain_gauge 1"
    by (simp only: scenario_rows_def)
  from first [THEN conjunct2, THEN conjunct1] have b:
    "gauge_body ''invalid'' ?cl scenario_rows plain_gauge 1
     = ([\<lparr>metric = ''m_plain'', value = Num 10, labels = ?cl\<rparr>], None)"
    by (simp add: scenario_rows_def g)
  from short [THEN conjunct2, THEN conjunct2] have c:
    "gauge_body ''invalid'' ?cl ([Str ''A''] # [[Str ''B'', Num 20]]) plain_gauge 2 = ([], None)"
    by simp
  from h a b c show ?thesis
    by blast
qed

section \<open>Empty result sets and rows without columns\<close>

lemma g_label_index_within_int_limit:
  "within_int_limit v \<Longrightarrow> \<exists>i. g_label_index v = Inr i"
  by (auto simp: within_int_limit_def g_label_index_def py_int_def split: option.splits)

lemma resolve_label_beyond_int_limit:
  "\<not> within_int_limit v \<Longrightarrow> resolve_label sentinel v row = Inl ValueError"
  by (auto simp: within_int_limit_def resolve_label_def g_label_index_def py_int_def
      split: option.splits)

lemma resolve_label_empty_row:
  assumes "within_int_limit v"
  shows "resolve_label sentinel v [] = Inr (Str sentinel)"
proof -
  from assms obtain i where "g_label_index v = Inr i"
    using g_label_index_within_int_limit by blast
  then show ?thesis
    by (simp add: resolve_label_def)
qed

lemma resolve_labels_empty_row:
  "list_all (\<lambda>(k, v). within_int_limit v) gl
    \<Longrightarrow> resolve_labels sentinel gl [] = Inr (map (\<lambda>(k, v). (k, Str sentinel)) gl)"
  by (induction gl) (auto simp: resolve_label_empty_row)

lemma set_gauge_if_present_empty_row: "set_gauge_if_present nm col [] lbls = Inr []"
  by (simp add: set_gauge_if_present_def)

lemma dynamic_rows_drop_empty:
  assumes "list_all (\<lambda>(k, v). within_int_limit v) gl"
  shows "dynamic_rows sentinel gl cl nm col res
   = dynamic_rows sentinel gl cl nm col (filter (\<lambda>row. row \<noteq> []) res)"
proof (induction res)
  case Nil
  show ?case by simp
next
  case (Cons row res)
  show ?case
  proof (cases "row = []")
    case True
    with Cons assms show ?thesis
      by (simp add: resolve_labels_empty_row set_gauge_if_present_empty_row)
  next
    case False
    with Cons show ?thesis
      by (simp split: sum.splits)
  qed
qed

lemma gauge_body_no_rows: "gauge_body sentinel cl [] g col = ([], None)"
  by (simp add: gauge_body_def)

lemma gauge_body_one_empty_row:
  "labels_within_int_limit g \<Longrightarrow> gauge_body sentinel cl [[]] g col = ([], None)"
  by (simp add: gauge_body_def labels_within_int_limit_def resolve_labels_empty_row
      set_gauge_if_present_empty_row)

lemma gauges_loop_no_observations:
  "(\<And>g col. g \<in> set gs \<Longrightarrow> gauge_body sentinel cl res g col = ([], None))
    \<Longrightarrow> gauges_loop sentinel cl res gs n = ([], None)"
  by (induction gs arbitrary: n) simp_all

text \<open>
  C8. For an empty result set every binding emits nothing, in either branch, and so does
  the result set that holds a single row without columns. A row without columns yields no
  observation: as first row of the static-label branch it ends the binding with nothing
  emitted, and in the dynamic-label branch the outcome is that of the result set without
  such rows. A label resolved against it is the sentinel, and its value lookup emits
  nothing; none of this raises. Where a label template is converted (the dynamic-label
  branch on a row, empty or not), its digits are taken to be within the limit of \<^verbatim>\<open>int\<close>;
  beyond the limit the conversion raises ValueError before the row is read.
\<close>

theorem empty_result_and_empty_row:
  "gauges_loop sentinel cl [] gs n = ([], None)
   \<and> (list_all labels_within_int_limit gs \<longrightarrow> gauges_loop sentinel cl [[]] gs n = ([], None))
   \<and> (\<not> has_special_labels (g_labels g) \<longrightarrow> gauge_body sentinel cl ([] # rows) g col = ([], None))
   \<and> (has_special_labels (g_labels g) \<and> labels_within_int_limit g \<longrightarrow>
        gauge_body sentinel cl res g col
        = gauge_body sentinel cl (filter (\<lambda>row. row \<noteq> []) res) g col)
   \<and> (within_int_limit v \<longrightarrow> resolve_label sentinel v [] = Inr (Str sentinel))
   \<and> set_gauge_if_present nm col [] lbls = Inr []"
proof (intro conjI impI)
  show "gauges_loop sentinel cl [] gs n = ([], None)"
    by (rule gauges_loop_no_observations) (rule gauge_body_no_rows)
  show "gauges_loop sentinel cl [[]] gs n = ([], None)"
    if "list_all labels_within_int_limit gs"
    using that by (intro gauges_loop_no_observations gauge_body_one_empty_row)
      (simp add: list_all_iff)
  show "gauge_body sentinel cl ([] # rows) g col = ([], None)"
    if "\<not> has_special_labels (g_labels g)"
    using that by (simp add: gauge_body_def set_gauge_if_present_empty_row)
  show "gauge_body sentinel cl res g col
        = gauge_body sentinel cl (filter (\<lambda>row. row \<noteq> []) res) g col"
    if "has_special_labels (g_labels g) \<and> labels_within_int_limit g"
    using that dynamic_rows_drop_empty [of "g_labels g" sentinel cl "gauge_name g" col res]
    by (simp add: gauge_body_def labels_within_int_limit_def)
  show "resolve_label sentinel v [] = Inr (Str sentinel)" if "within_int_limit v"
    using that by (rule resolve_label_empty_row)
  show "set_gauge_if_present nm col [] lbls = Inr []"
    by (rule set_gauge_if_present_empty_row)
qed

theorem empty_result_and_empty_row_witness:
  "gauges_loop ''invalid'' (c_labels ''invalid'' scenario_connection) []
      [plain_gauge, mixed_gauge] 0 = ([], None)
   \<and> list_all labels_within_int_limit [plain_gauge, mixed_gauge]
   \<and> gauges_loop ''invalid'' (c_labels ''invalid'' scenario_connection) [[]]
      [plain_gauge, mixed_gauge] 0 = ([], None)
   \<and> \<not> has_special_labels (g_labels plain_gauge)
   \<and> gauge_body ''invalid'' (c_labels ''invalid'' scenario_connection) ([] # scenario_rows)
        plain_gauge 1 = ([], None)
   \<and> has_special_labels (g_labels mixed_gauge)
   \<and> gauge_body ''invalid'' (c_labels ''invalid'' scenario_connection)
        [[], [Str ''A'', Num 10], [], [Str ''B'', Num 20]] mixed_gauge 1
     = gauge_body ''invalid'' (c_labels ''invalid'' scenario_connection)
        [[Str ''A'', Num 10], [Str ''B'', Num 20]] mixed_gauge 1
   \<and> within_int_limit ''$1''
   \<and> resolve_label ''invalid'' ''$1'' [] = Inr (Str ''invalid'')
   \<and> set_gauge_if_present ''m_plain'' 1 [] Map.empty = Inr []"
proof -
  let ?cl = "c_labels ''invalid'' scenario_connection"
  have s: "\<not> has_special_labels (g_labels plain_gauge)"
    by (simp add: plain_gauge_def g_labels_def has_special_labels_def)
  have d: "has_special_labels (g_labels mixed_gauge)"
    by (simp add: mixed_gauge_def g_labels_def has_special_labels_def placeholder_match_def is_digit_def)
  have v: "within_int_limit ''$1''"
    by (simp add: within_int_limit_def placeholder_match_def is_digit_def int_max_str_digits_def)
  have lp: "labels_within_int_limit plain_gauge"
    by (simp add: labels_within_int_limit_def plain_gauge_def g_labels_def)
  have lm: "labels_within_int_limit mixed_gauge"
    by (simp add: labels_within_int_limit_def mixed_gauge_def g_labels_def within_int_limit_def
        placeholder_match_def is_digit_def int_max_str_digits_def)
  from lp lm have l: "list_all labels_within_int_limit [plain_gauge, mixed_gauge]"
    by simp
  note loops = empty_result_and_empty_row
    [where sentinel = "''invalid''" and cl = ?cl and gs = "[plain_gauge, mixed_gauge]" and n = 0
       and g = plain_gauge and rows = scenario_rows and col = 1 and v = "''$1''"
       and nm = "''m_plain''" and lbls = Map.empty and res = "[]"]
  note fanout = empty_result_and_empty_row
    [where sentinel = "''invalid''" and cl = ?cl and g = mixed_gauge and col = 1
       and res = "[[], [Str ''A'', Num 10], [], [Str ''B'', Num 20]]"]
  from fanout d lm have
    "gauge_body ''invalid'' ?cl [[], [Str ''A'', Num 10], [], [Str ''B'', Num 20]] mixed_gauge 1
     = gauge_body ''invalid'' ?cl [[Str ''A'', Num 10], [Str ''B'', Num 20]] mixed_gauge 1"
    by simp
  with loops s d v l show ?thesis
    by blast
qed

section \<open>The running column counter\<close>

lemma gauges_loop_from:
  "gauges_loop sentinel cl res gs (int n) =
     in_declared_order
       (map (\<lambda>(i, g). gauge_body sentinel cl res g
                         (case gauge_col g of Some c \<Rightarrow> c - 1 | None \<Rightarrow> int i))
          (enumerate n gs))"
proof (induction gs arbitrary: n)
  case Nil
  show ?case by simp
next
  case (Cons g gs)
  have next_counter: "int n + 1 = int (Suc n)" by simp
  show ?case
    by (cases "gauge_body sentinel cl res g (case gauge_col g of Some c \<Rightarrow> c - 1 | None \<Rightarrow> int n)")
      (auto simp: next_counter Cons.IH split: option.splits prod.splits simp del: of_nat_Suc)
qed

text \<open>
  C6. The gauges of a query are evaluated in declared order with one counter that starts
  at 0 and advances once per gauge: the pass is the sequence of the gauge steps in which
  the gauge at zero-based position \<open>i\<close> uses column \<open>i\<close> when it has no \<^verbatim>\<open>col\<close>, and
  column \<open>col - 1\<close> when it has one, whatever branch it takes.
\<close>

theorem column_counter:
  "gauges_loop sentinel cl res gs 0 =
     in_declared_order
       (map (\<lambda>(i, g). gauge_body sentinel cl res g
                         (case gauge_col g of Some c \<Rightarrow> c - 1 | None \<Rightarrow> int i))
          (enumerate 0 gs))"
  using gauges_loop_from [of sentinel cl res gs 0] by simp


theorem column_counter_witness:
  "gauges_loop ''invalid'' (c_labels ''invalid'' scenario_connection) scenario_rows
     [mixed_gauge, positional_gauge, positional_gauge] 0
   = in_declared_order
       [gauge_body ''invalid'' (c_labels ''invalid'' scenario_connection) scenario_rows mixed_gauge 1,
        gauge_body ''invalid'' (c_labels ''invalid'' scenario_connection) scenario_rows positional_gauge 1,
        gauge_body ''invalid'' (c_labels ''invalid'' scenario_connection) scenario_rows positional_gauge 2]"
proof -
  have cols: "gauge_col mixed_gauge = Some 2" "gauge_col positional_gauge = None"
    by (simp_all add: mixed_gauge_def positional_gauge_def)
  from column_counter [of "''invalid''" "c_labels ''invalid'' scenario_connection" scenario_rows
      "[mixed_gauge, positional_gauge, positional_gauge]"]
  show ?thesis
    by (simp add: cols)
qed

section \<open>Only SELECT statements reach the database\<close>

lemma upper_case_not_space:
  fixes n :: nat
  assumes "(65 \<le> n \<and> n \<le> 90) \<or> (192 \<le> n \<and> n \<le> 222 \<and> n \<noteq> 215)"
  shows "n \<notin> {9, 10, 11, 12, 13, 28, 29, 30, 31, 32, 133, 160}"
  using assms by auto

lemma lower_char_select_not_space:
  assumes "lower_char c \<in> set ''select''"
  shows "\<not> py_isspace c"
proof (cases "(65 \<le> (of_char c :: nat) \<and> (of_char c :: nat) \<le> 90)
         \<or> (192 \<le> (of_char c :: nat) \<and> (of_char c :: nat) \<le> 222 \<and> (of_char c :: nat) \<noteq> 215)")
  case True
  then show ?thesis
    unfolding py_isspace_def by (rule upper_case_not_space)
next
  case False
  with assms have "c \<in> set ''select''"
    by (simp add: lower_char_def)
  then show ?thesis
    by (auto simp: py_isspace_def)
qed


lemma rstrip_decomposition:
  "\<exists>ws. xs = rev (dropWhile P (rev xs)) @ ws \<and> (\<forall>w \<in> set ws. P w)"
proof -
  have "rev xs = takeWhile P (rev xs) @ dropWhile P (rev xs)"
    by simp
  then have "xs = rev (dropWhile P (rev xs)) @ rev (takeWhile P (rev xs))"
    by (metis rev_append rev_rev_ident)
  moreover have "\<forall>w \<in> set (rev (takeWhile P (rev xs))). P w"
    by (auto dest: set_takeWhileD)
  ultimately show ?thesis by blast
qed

lemma select_prefix_without_trailing_space:
  assumes ws: "\<forall>w \<in> set ws. py_isspace w"
  shows "(take 6 (map lower_char (ys @ ws)) = ''select'') = (take 6 (map lower_char ys) = ''select'')"
proof
  assume sel: "take 6 (map lower_char (ys @ ws)) = ''select''"
  show "take 6 (map lower_char ys) = ''select''"
  proof (cases "6 \<le> length ys")
    case True
    with sel show ?thesis by simp
  next
    case False
    define i where "i = length ys"
    from False have i6: "i < 6" by (simp add: i_def)
    from sel have "length (take 6 (map lower_char (ys @ ws))) = 6"
      by simp
    then have len: "6 \<le> length ys + length ws"
      by simp
    with i6 have iw: "0 < length ws" by (cases ws) (simp_all add: i_def)
    from i6 have "take 6 (map lower_char (ys @ ws)) ! i = map lower_char (ys @ ws) ! i"
      by (rule nth_take)
    also have "\<dots> = lower_char (ws ! 0)"
      using iw by (simp add: i_def nth_append)
    finally have "lower_char (ws ! 0) = ''select'' ! i"
      using sel by simp
    moreover from i6 have "''select'' ! i \<in> set ''select''"
      by (intro nth_mem) simp
    ultimately have "\<not> py_isspace (ws ! 0)"
      using lower_char_select_not_space by metis
    moreover from iw ws have "py_isspace (ws ! 0)"
      by simp
    ultimately show ?thesis by contradiction
  qed
next
  assume sel: "take 6 (map lower_char ys) = ''select''"
  then have "length (take 6 (map lower_char ys)) = 6"
    by simp
  then have "6 \<le> length ys" by simp
  with sel show "take 6 (map lower_char (ys @ ws)) = ''select''"
    by simp
qed

lemma startswith_select: "startswith s ''select'' = (take 6 s = ''select'')"
proof -
  have "length ''select'' = 6" by simp
  then show ?thesis by (simp only: startswith_def)
qed

lemma startswith_select_strip:
  "startswith (lower (strip query)) ''select''
   = startswith (lower (dropWhile py_isspace query)) ''select''"
proof -
  obtain ws where
    "dropWhile py_isspace query = strip query @ ws" and "\<forall>w \<in> set ws. py_isspace w"
    using rstrip_decomposition [of "dropWhile py_isspace query" py_isspace]
    by (auto simp: strip_def)
  then show ?thesis
    using select_prefix_without_trailing_space [of ws "strip query"]
    by (simp add: startswith_select lower_def)
qed

text \<open>
  C9. \<^verbatim>\<open>execute(query, name)\<close> returns an empty sequence, with nothing sent to the
  database, for every statement that does not start with \<^verbatim>\<open>select\<close> once leading white
  space is dropped and case is ignored. When the statement is sent and the driver raises a
  database error, it returns the sequence of one empty row. A database error never reaches
  the caller: the only exception that leaves \<^verbatim>\<open>execute\<close> is KeyboardInterrupt.
\<close>

theorem execute_select_only:
  "(\<not> startswith (lower (dropWhile py_isspace query)) ''select''
      \<longrightarrow> execute conn query name = (Inr [], []))
   \<and> (startswith (lower (dropWhile py_isspace query)) ''select'' \<and> db query = Inl (DatabaseError m)
      \<longrightarrow> execute (Some db) query name = (Inr [[]], [query]))
   \<and> fst (execute conn query name) \<noteq> Inl (DatabaseError m')
   \<and> (case fst (execute conn query name) of Inl e \<Rightarrow> e = KeyboardInterrupt | Inr rows \<Rightarrow> True)"
  by (auto simp: execute_def startswith_select_strip split: option.splits sum.splits exn.splits)

theorem execute_select_only_witness:
  "\<not> startswith (lower (dropWhile py_isspace ''delete from t'')) ''select''
   \<and> execute (Some failing_database) ''delete from t'' ''q1'' = (Inr [], [])
   \<and> startswith (lower (dropWhile py_isspace ''  SeLeCt 1 from dual'')) ''select''
   \<and> failing_database ''  SeLeCt 1 from dual'' = Inl (DatabaseError ''ORA-00942'')
   \<and> execute (Some failing_database) ''  SeLeCt 1 from dual'' ''q2''
     = (Inr [[]], [''  SeLeCt 1 from dual''])"
proof -
  have n: "\<not> startswith (lower (dropWhile py_isspace ''delete from t'')) ''select''"
    by code_simp
  have s: "startswith (lower (dropWhile py_isspace ''  SeLeCt 1 from dual'')) ''select''"
    by code_simp
  have f: "failing_database ''  SeLeCt 1 from dual'' = Inl (DatabaseError ''ORA-00942'')"
    by (simp add: failing_database_def)
  from execute_select_only [of "''delete from t''" "Some failing_database" "''q1''"] n
  have a: "execute (Some failing_database) ''delete from t'' ''q1'' = (Inr [], [])"
    by blast
  from execute_select_only [of "''  SeLeCt 1 from dual''" _ _ failing_database "''ORA-00942''" "''q2''"] s f
  have b: "execute (Some failing_database) ''  SeLeCt 1 from dual'' ''q2''
     = (Inr [[]], [''  SeLeCt 1 from dual''])"
    by blast
  from n s f a b show ?thesis by blast
qed

section \<open>Rows that end just before the column asked for\<close>

text \<open>
  Both length guards compare with \<^verbatim>\<open>>=\<close> against a zero-based index. They hold when the
  row has exactly as many columns as the index, and the indexing that follows raises.
\<close>

lemma resolve_label_placeholder:
  assumes "placeholder_match v = Some ds" and "length ds \<le> int_max_str_digits"
    and "1 \<le> int_of_digits ds"
  shows "(int_of_digits ds \<le> int (length row)
            \<longrightarrow> resolve_label sentinel v row = Inr (row ! nat (int_of_digits ds - 1)))
       \<and> (row = [] \<or> int (length row) < int_of_digits ds - 1
            \<longrightarrow> resolve_label sentinel v row = Inr (Str sentinel))
       \<and> (row \<noteq> [] \<and> int (length row) = int_of_digits ds - 1
            \<longrightarrow> resolve_label sentinel v row = Inl IndexError)"
  using assms by (auto simp: resolve_label_def g_label_index_def py_int_def py_getitem_def)

lemma set_gauge_if_present_by_length:
  assumes "0 \<le> col"
  shows "(col < int (length row)
            \<longrightarrow> set_gauge_if_present nm col row lbls
                = Inr [\<lparr>metric = nm, value = row ! nat col, labels = lbls\<rparr>])
       \<and> (int (length row) < col \<longrightarrow> set_gauge_if_present nm col row lbls = Inr [])
       \<and> (row \<noteq> [] \<and> int (length row) = col
            \<longrightarrow> set_gauge_if_present nm col row lbls = Inl IndexError)"
  using assms by (auto simp: set_gauge_if_present_def py_getitem_def)

text \<open>
  C3 at the template \<^verbatim>\<open>$2\<close> and the row \<^verbatim>\<open>["A"]\<close>: the row has fewer than two columns,
  and the resolution raises IndexError instead of giving the sentinel; the pass ends there.
\<close>

theorem placeholder_one_past_the_row:
  "placeholder_match ''$2'' = Some ''2''
   \<and> int_of_digits ''2'' = 2
   \<and> resolve_label ''invalid'' ''$2'' [Str ''A''] = Inl IndexError
   \<and> query_set_pass ''invalid'' scenario_connection [[Str ''A''], [Str ''B'', Num 20]]
        [second_column_label_gauge, plain_gauge]
     = ([], Some IndexError)"
  by (simp add: second_column_label_gauge_def plain_gauge_def mapping_defs)

text \<open>
  C4 at the rows \<^verbatim>\<open>[["A"], ["B", 20]]\<close> with \<^verbatim>\<open>col=2\<close> and the label \<^verbatim>\<open>env: $1\<close>: the
  first row has fewer than two columns; its value lookup raises IndexError, and neither
  the second row nor the next gauge is processed.
\<close>

theorem short_row_stops_the_pass:
  "query_set_pass ''invalid'' scenario_connection [[Str ''A''], [Str ''B'', Num 20]]
     [scenario_dynamic_gauge, plain_gauge]
   = ([], Some IndexError)"
  by (simp add: scenario_dynamic_gauge_def plain_gauge_def mapping_defs)

section \<open>Emitted label keys and the registered schema\<close>

text \<open>
  C5 at one connection without \<^verbatim>\<open>extra_labels\<close> and a gauge without labels: the schema
  registered for the gauge has three keys and the emitted label set has five. With a
  second connection that declares a label \<^verbatim>\<open>region\<close>, the schema holds \<^verbatim>\<open>region\<close> and
  the observations of the first connection do not.
\<close>

theorem emitted_keys_differ_from_schema:
  "create_gauge_labels (get_labels_list [scenario_connection]) plain_gauge
     = {''dbhost'', ''dbport'', ''dbname''}
   \<and> map (\<lambda>ob. dom (labels ob))
        (fst (query_set_pass ''invalid'' scenario_connection scenario_rows [plain_gauge]))
     = [{''dbhost'', ''dbport'', ''dbname'', ''dbenv'', ''dbinstance''}]
   \<and> ''region'' \<in> create_gauge_labels (get_labels_list [regional_connection, scenario_connection])
                     plain_gauge
   \<and> map (\<lambda>ob. labels ob ''region'')
        (fst (query_set_pass ''invalid'' scenario_connection scenario_rows [plain_gauge]))
     = [None]"
proof -
  have schema: "create_gauge_labels (get_labels_list [scenario_connection]) plain_gauge
     = {''dbhost'', ''dbport'', ''dbname''}"
    by (auto simp: create_gauge_labels_def get_labels_list_def scenario_connection_def
        plain_gauge_def g_labels_def)
  have pass: "fst (query_set_pass ''invalid'' scenario_connection scenario_rows [plain_gauge])
     = [\<lparr>metric = ''m_plain'', value = Num 10, labels = c_labels ''invalid'' scenario_connection\<rparr>]"
    by (simp add: query_set_pass_def scenario_rows_def plain_gauge_def gauge_body_def
        g_labels_def has_special_labels_def set_gauge_if_present_def py_getitem_def)
  have keys: "dom (c_labels ''invalid'' scenario_connection)
     = {''dbhost'', ''dbport'', ''dbname'', ''dbenv'', ''dbinstance''}"
    by (auto simp: dom_c_labels max_conn_labels_def scenario_connection_def)
  have region: "''region'' \<in> create_gauge_labels
                    (get_labels_list [regional_connection, scenario_connection]) plain_gauge"
    by (simp add: create_gauge_labels_def get_labels_list_def regional_connection_def
        scenario_connection_def)
  have missing: "c_labels ''invalid'' scenario_connection ''region'' = None"
    by (simp add: c_labels_def max_conn_labels_def scenario_connection_def)
  from schema pass keys region missing show ?thesis
    by simp
qed

end
